theory Spec2Isabelle
  imports Complex_Main
begin

section \<open>Numbers\<close>

text \<open>
  The viewer computes on 32-bit \<open>float\<close>s. Three views of a float are used below.

  \<^item> Where a function only compares and selects (\<open>clamp\<close>), the comparison operators are
    parameters, as they are for the template parameter \<open>T\<close>, and the type \<open>float\<close> below
    gives the IEEE comparisons including NaN and the infinities. Comparisons do not round,
    so this view is exact (the two zeros compare equal and are one value here).
  \<^item> Where a function of the sources does arithmetic (\<open>toSRGB\<close>), and in the metrics, the
    type \<open>ieee\<close> further below gives IEEE 754 arithmetic: every operation rounds to the
    nearest value of its format, ties to even, overflows to an infinity, and treats NaN,
    the infinities and the two zeros as the standard says. A literal such as \<open>12.92f\<close>
    is the binary32 value nearest to the decimal written.
  \<^item> The formulas that only the specification gives for exposure, offset and the
    tonemap are read over the real numbers, as the specification writes them.
\<close>

datatype float = NaN | NegInf | Finite real | PosInf

text \<open>\<open>a < b\<close> on floats: false as soon as one side is NaN.\<close>

fun float_lt :: "float \<Rightarrow> float \<Rightarrow> bool" where
  "float_lt NaN _ = False"
| "float_lt _ NaN = False"
| "float_lt PosInf _ = False"
| "float_lt _ PosInf = True"
| "float_lt _ NegInf = False"
| "float_lt NegInf _ = True"
| "float_lt (Finite a) (Finite b) = (a < b)"

text \<open>\<open>a >= b\<close> and \<open>a <= b\<close> on floats: again false as soon as one side is NaN.\<close>

definition float_ge :: "float \<Rightarrow> float \<Rightarrow> bool" where
  "float_ge a b = (a \<noteq> NaN \<and> b \<noteq> NaN \<and> \<not> float_lt a b)"

definition float_le :: "float \<Rightarrow> float \<Rightarrow> bool" where
  "float_le a b = float_ge b a"

subsection \<open>IEEE 754 arithmetic\<close>

text \<open>
  The two formats in play: \<open>float\<close> is binary32, \<open>double\<close> is binary64. A format has a
  precision \<open>p\<close> (bits of the significand) and a largest exponent \<open>emax\<close>; its smallest
  exponent is \<open>1 - emax\<close>.
\<close>

datatype format = Binary32 | Binary64

fun precision :: "format \<Rightarrow> nat" where
  "precision Binary32 = 24"
| "precision Binary64 = 53"

fun emax :: "format \<Rightarrow> int" where
  "emax Binary32 = 127"
| "emax Binary64 = 1023"

text \<open>Rounding a real to the nearest integer, a tie to the even one.\<close>

definition rne :: "real \<Rightarrow> int" where
  "rne x =
     (let n = \<lfloor>x\<rfloor>; r = x - of_int n in
      if r < 1 / 2 then n else if 1 / 2 < r then n + 1 else if even n then n else n + 1)"

text \<open>
  The values of a format around \<open>x\<close> are the multiples of a power of two, the quantum:
  with \<open>2^e \<le> |x| < 2^(e+1)\<close> it is \<open>2^(e - p + 1)\<close>, and below the normal range (\<open>e\<close>
  under \<open>1 - emax\<close>) it stays that of the smallest exponent. \<open>round_real\<close> is the nearest
  such multiple, before the range is checked.
\<close>

definition binade :: "format \<Rightarrow> real \<Rightarrow> int" where
  "binade fmt x = max (1 - emax fmt) \<lfloor>log 2 \<bar>x\<bar>\<rfloor>"

definition quantum :: "format \<Rightarrow> real \<Rightarrow> real" where
  "quantum fmt x = 2 powi (binade fmt x - int (precision fmt) + 1)"

definition round_real :: "format \<Rightarrow> real \<Rightarrow> real" where
  "round_real fmt x = of_int (rne (x / quantum fmt x)) * quantum fmt x"


text \<open>
  A value of either format: NaN, an infinity with its sign (\<open>True\<close> is negative), the
  negative zero, or a number, \<open>Num 0\<close> being the positive zero.
\<close>

datatype ieee = Nan | Infty bool | NegZero | Num real

fun val :: "ieee \<Rightarrow> real" where
  "val (Num r) = r"
| "val _ = 0"

fun sign :: "ieee \<Rightarrow> bool" where
  "sign (Infty s) = s"
| "sign NegZero = True"
| "sign (Num r) = (r < 0)"
| "sign Nan = False"

fun is_zero :: "ieee \<Rightarrow> bool" where
  "is_zero NegZero = True"
| "is_zero (Num r) = (r = 0)"
| "is_zero _ = False"

text \<open>A zero with the given sign.\<close>

definition signed_zero :: "bool \<Rightarrow> ieee" where
  "signed_zero neg = (if neg then NegZero else Num 0)"

text \<open>
  The result of an operation whose exact value is the real \<open>x\<close>, with sign \<open>neg\<close>: the
  nearest value of the format; an infinity when that is beyond the largest finite value;
  a zero that keeps the sign when \<open>x\<close> rounds to zero.
\<close>

definition fround :: "format \<Rightarrow> bool \<Rightarrow> real \<Rightarrow> ieee" where
  "fround fmt neg x =
     (let r = round_real fmt x in
      if 2 powi (emax fmt + 1) \<le> \<bar>r\<bar> then Infty neg
      else if r = 0 then signed_zero neg
      else Num r)"

text \<open>A \<open>float\<close> literal, and the conversion of a value to a format (a \<open>double\<close> returned
  as \<open>float\<close>).\<close>

definition literal :: "real \<Rightarrow> ieee" where
  "literal d = fround Binary32 (d < 0) d"

fun fconv :: "format \<Rightarrow> ieee \<Rightarrow> ieee" where
  "fconv fmt (Num r) = fround fmt (r < 0) r"
| "fconv fmt x = x"

fun fneg :: "ieee \<Rightarrow> ieee" where
  "fneg Nan = Nan"
| "fneg (Infty s) = Infty (\<not> s)"
| "fneg NegZero = Num 0"
| "fneg (Num r) = (if r = 0 then NegZero else Num (- r))"

fun fabs :: "ieee \<Rightarrow> ieee" where
  "fabs Nan = Nan"
| "fabs (Infty s) = Infty False"
| "fabs NegZero = Num 0"
| "fabs (Num r) = Num \<bar>r\<bar>"

text \<open>
  Addition. Infinities of opposite sign give NaN. An exact sum of zero is the positive
  zero unless both operands are negative zeros.
\<close>

fun fadd :: "format \<Rightarrow> ieee \<Rightarrow> ieee \<Rightarrow> ieee" where
  "fadd fmt Nan _ = Nan"
| "fadd fmt _ Nan = Nan"
| "fadd fmt (Infty s) (Infty t) = (if s = t then Infty s else Nan)"
| "fadd fmt (Infty s) _ = Infty s"
| "fadd fmt _ (Infty t) = Infty t"
| "fadd fmt x y =
     (let v = val x + val y in
      if v = 0 then signed_zero (sign x \<and> sign y) else fround fmt (v < 0) v)"

definition fsub :: "format \<Rightarrow> ieee \<Rightarrow> ieee \<Rightarrow> ieee" where
  "fsub fmt x y = fadd fmt x (fneg y)"

text \<open>
  Multiplication and division. The sign of the result is the exclusive or of the signs;
  infinity times zero, zero by zero and infinity by infinity give NaN; a number other
  than zero divided by a zero gives an infinity.
\<close>

fun fmul :: "format \<Rightarrow> ieee \<Rightarrow> ieee \<Rightarrow> ieee" where
  "fmul fmt Nan _ = Nan"
| "fmul fmt _ Nan = Nan"
| "fmul fmt (Infty s) y = (if is_zero y then Nan else Infty (s \<noteq> sign y))"
| "fmul fmt x (Infty t) = (if is_zero x then Nan else Infty (sign x \<noteq> t))"
| "fmul fmt x y = fround fmt (sign x \<noteq> sign y) (val x * val y)"

fun fdiv :: "format \<Rightarrow> ieee \<Rightarrow> ieee \<Rightarrow> ieee" where
  "fdiv fmt Nan _ = Nan"
| "fdiv fmt _ Nan = Nan"
| "fdiv fmt (Infty s) (Infty t) = Nan"
| "fdiv fmt (Infty s) y = Infty (s \<noteq> sign y)"
| "fdiv fmt x (Infty t) = signed_zero (sign x \<noteq> t)"
| "fdiv fmt x y =
     (if is_zero y then (if is_zero x then Nan else Infty (sign x \<noteq> sign y))
      else fround fmt (sign x \<noteq> sign y) (val x / val y))"

text \<open>Comparison goes through the comparison view, which identifies the two zeros.\<close>

fun cmp :: "ieee \<Rightarrow> float" where
  "cmp Nan = NaN"
| "cmp (Infty s) = (if s then NegInf else PosInf)"
| "cmp NegZero = Finite 0"
| "cmp (Num r) = Finite r"

definition fle :: "ieee \<Rightarrow> ieee \<Rightarrow> bool" where
  "fle x y = float_le (cmp x) (cmp y)"



section \<open>Common.h\<close>

subsection \<open>The enumerations\<close>

text \<open>Both enumerations end in a sentinel that only serves to loop over the members.\<close>

datatype ETonemap = SRGB | Gamma | FalseColor | PositiveNegative | NumTonemaps

datatype EMetric =
  Error | AbsoluteError | SquaredError | RelativeAbsoluteError | RelativeSquaredError | NumMetrics

subsection \<open>\<open>TEV_ASSERT\<close> and \<open>clamp\<close>\<close>

text \<open>
  \<open>TEV_ASSERT(cond, description, ...)\<close> throws \<open>std::runtime_error\<close> when the condition is
  false; the exception carries the format string and its arguments. Otherwise control
  goes on to the rest of the function, here the last argument.
\<close>

datatype 'a exn = RuntimeError string "'a list"

definition TEV_ASSERT :: "bool \<Rightarrow> string \<Rightarrow> 'a list \<Rightarrow> ('a exn + 'b) \<Rightarrow> 'a exn + 'b" where
  "TEV_ASSERT cond description args rest =
     (if \<not> cond then Inl (RuntimeError description args) else rest)"

text \<open>
  \<open>std::min(a, b)\<close> is \<open>(b < a) ? b : a\<close> and \<open>std::max(a, b)\<close> is \<open>(a < b) ? b : a\<close>, both
  in terms of the \<open>operator<\<close> of \<open>T\<close>.
\<close>

definition std_min :: "('a \<Rightarrow> 'a \<Rightarrow> bool) \<Rightarrow> 'a \<Rightarrow> 'a \<Rightarrow> 'a" where
  "std_min lt a b = (if lt b a then b else a)"

definition std_max :: "('a \<Rightarrow> 'a \<Rightarrow> bool) \<Rightarrow> 'a \<Rightarrow> 'a \<Rightarrow> 'a" where
  "std_max lt a b = (if lt a b then b else a)"

text \<open>
  \<open>clamp<T>\<close>. The first two arguments are the \<open>operator>=\<close> and \<open>operator<\<close> of \<open>T\<close>;
  the parameters \<open>min\<close> and \<open>max\<close> of the source are \<open>lo\<close> and \<open>hi\<close>.
\<close>

definition clamp ::
  "('a \<Rightarrow> 'a \<Rightarrow> bool) \<Rightarrow> ('a \<Rightarrow> 'a \<Rightarrow> bool) \<Rightarrow> 'a \<Rightarrow> 'a \<Rightarrow> 'a \<Rightarrow> 'a exn + 'a" where
  "clamp ge lt v lo hi =
     TEV_ASSERT (ge hi lo) ''Minimum (%f) may not be larger than maximum (%f).'' [lo, hi]
       (Inr (std_max lt (std_min lt v hi) lo))"

text \<open>The two instances: a totally ordered \<open>T\<close> (the integers, say), and \<open>T = float\<close>.\<close>

definition clamp_ord :: "'a::linorder \<Rightarrow> 'a \<Rightarrow> 'a \<Rightarrow> 'a exn + 'a" where
  "clamp_ord = clamp (\<lambda>a b. b \<le> a) (\<lambda>a b. a < b)"

definition clamp_float :: "float \<Rightarrow> float \<Rightarrow> float \<Rightarrow> float exn + float" where
  "clamp_float = clamp float_ge float_lt"

subsection \<open>\<open>toSRGB\<close>\<close>

text \<open>
  \<open>toSRGB\<close> compares its \<open>float\<close> argument with the literal \<open>0.0031308f\<close>; a NaN compares
  false and takes the second branch. The first branch is one \<open>float\<close> multiplication.

  In the second branch, \<open>1 + a\<close> and \<open>1 / gamma\<close> are \<open>float\<close> operations (the \<open>int\<close> 1
  converts to \<open>float\<close>). \<open>pow\<close> is the C library's and is the first argument here. The
  call is unqualified: where only \<open>pow(double, double)\<close> is in scope it computes in
  \<open>double\<close>, as do the multiplication and the subtraction around it, and the \<open>return\<close>
  converts to \<open>float\<close>; where a \<open>float\<close> overload is in scope, all of it is \<open>float\<close>
  arithmetic. The second argument \<open>ef\<close> is that format. The parameter \<open>linear\<close> of the
  source is \<open>lin\<close>.
\<close>

definition toSRGB :: "(ieee \<Rightarrow> ieee \<Rightarrow> ieee) \<Rightarrow> format \<Rightarrow> ieee \<Rightarrow> ieee \<Rightarrow> ieee" where
  "toSRGB pow ef lin gamma =
     (let a = literal 0.055 in
      if fle lin (literal 0.0031308) then fmul Binary32 (literal 12.92) lin
      else fconv Binary32
        (fsub ef (fmul ef (fadd Binary32 (Num 1) a) (pow lin (fdiv Binary32 (Num 1) gamma))) a))"

text \<open>The default argument \<open>gamma = 2.4f\<close>.\<close>

definition toSRGB_default :: "(ieee \<Rightarrow> ieee \<Rightarrow> ieee) \<Rightarrow> format \<Rightarrow> ieee \<Rightarrow> ieee" where
  "toSRGB_default pow ef lin = toSRGB pow ef lin (literal 2.4)"

text \<open>
  A \<open>pow\<close> to run \<open>toSRGB\<close> with: the correctly rounded one, on the bases that \<open>toSRGB\<close>
  can pass in its second branch (NaN, the positive infinity and the positive numbers) and
  every exponent, with the special cases of the C standard. Other bases give NaN here.
\<close>

definition pow_cr :: "format \<Rightarrow> ieee \<Rightarrow> ieee \<Rightarrow> ieee" where
  "pow_cr fmt x y =
     (if is_zero y then Num 1
      else if x = Num 1 then Num 1
      else if x = Nan \<or> y = Nan then Nan
      else case (x, y) of
        (Infty False, _) \<Rightarrow> (if sign y then Num 0 else Infty False)
      | (Num a, Infty t) \<Rightarrow>
          (if a \<le> 0 then Nan else if (a < 1) = t then Infty False else Num 0)
      | (Num a, Num b) \<Rightarrow> (if a \<le> 0 then Nan else fround fmt False (a powr b))
      | _ \<Rightarrow> Nan)"

section \<open>ImageCanvas.h\<close>

text \<open>
  The canvas. Images, the shader and the \<open>Lazy\<close> statistics objects are declared in
  headers outside these sources and stay abstract: \<open>'image\<close>, \<open>'shader\<close>, \<open>'lazy\<close>. A
  shared or unique pointer that may be null is an \<open>option\<close>; \<open>std::map\<close> is a partial map.
\<close>

type_synonym Vector2i = "int \<times> int"
type_synonym Vector3f = "real \<times> real \<times> real"
type_synonym Matrix3f = "real list list"

text \<open>A function applied to each of the three channels of a colour.\<close>

definition map_Vector3f :: "(real \<Rightarrow> real) \<Rightarrow> Vector3f \<Rightarrow> Vector3f" where
  "map_Vector3f f v = (case v of (r, g, b) \<Rightarrow> (f r, f g, f b))"

record ('image, 'shader, 'lazy) ImageCanvas =
  mPixelRatio :: real
  mExposure :: real
  mOffset :: real
  mGamma :: real
  mClipToLdr :: bool
  mImage :: "'image option"
  mReference :: "'image option"
  mRequestedChannelGroup :: string
  mTransform :: Matrix3f
  mShader :: "'shader option"
  mTonemap :: ETonemap
  mMetric :: EMetric
  mMeanValues :: "string \<rightharpoonup> 'lazy"

text \<open>
  A canvas whose members hold their default member initialisers (the constructor itself
  is defined outside the header).
\<close>

definition defaultCanvas :: "('image, 'shader, 'lazy) ImageCanvas" where
  "defaultCanvas =
     \<lparr> mPixelRatio = 1, mExposure = 0, mOffset = 0, mGamma = 2.2,
       mClipToLdr = False, mImage = None, mReference = None,
       mRequestedChannelGroup = '''',
       mTransform = [[1, 0, 0], [0, 1, 0], [0, 0, 1]],
       mShader = None, mTonemap = SRGB, mMetric = Error, mMeanValues = Map.empty \<rparr>"

definition setExposure ::
  "real \<Rightarrow> ('image, 'shader, 'lazy) ImageCanvas \<Rightarrow> ('image, 'shader, 'lazy) ImageCanvas" where
  "setExposure exposure c = c\<lparr>mExposure := exposure\<rparr>"

definition setOffset ::
  "real \<Rightarrow> ('image, 'shader, 'lazy) ImageCanvas \<Rightarrow> ('image, 'shader, 'lazy) ImageCanvas" where
  "setOffset offset c = c\<lparr>mOffset := offset\<rparr>"

definition setGamma ::
  "real \<Rightarrow> ('image, 'shader, 'lazy) ImageCanvas \<Rightarrow> ('image, 'shader, 'lazy) ImageCanvas" where
  "setGamma gamma c = c\<lparr>mGamma := gamma\<rparr>"

text \<open>
  The member overload \<open>applyTonemap(value)\<close> passes the canvas's gamma and tonemap on to
  the static \<open>applyTonemap(value, gamma, tonemap)\<close>, and the vector-returning overload of
  \<open>getValuesAtNanoPos\<close> hands a fresh empty vector to the overload with an out-parameter.
  The bodies of the callees are not in the header: the callee is the first argument. The
  out-parameter overload is not \<open>const\<close> and may throw, so it takes the canvas and the
  vector and gives back either an exception or the vector together with the canvas.
\<close>

definition applyTonemap_member ::
  "(Vector3f \<Rightarrow> real \<Rightarrow> ETonemap \<Rightarrow> 'r) \<Rightarrow> ('image, 'shader, 'lazy) ImageCanvas \<Rightarrow> Vector3f \<Rightarrow> 'r" where
  "applyTonemap_member applyTonemap_static c v = applyTonemap_static v (mGamma c) (mTonemap c)"

definition getValuesAtNanoPos ::
  "('c \<Rightarrow> Vector2i \<Rightarrow> real list \<Rightarrow> string list \<Rightarrow> 'e + real list \<times> 'c) \<Rightarrow>
   'c \<Rightarrow> Vector2i \<Rightarrow> string list \<Rightarrow> 'e + real list \<times> 'c" where
  "getValuesAtNanoPos getValuesAtNanoPos_out c nanoPos channels =
     (let result = [] in
      case getValuesAtNanoPos_out c nanoPos result channels of
        Inl e \<Rightarrow> Inl e
      | Inr (result', c') \<Rightarrow> Inr (result', c'))"

section \<open>Functions the header only declares\<close>

text \<open>
  Modelled from the spec: \<open>ImageCanvas::applyExposureAndOffset\<close>, declared in the header
  and defined outside the sources. The spec gives \<open>adjusted = value * 2^exposure + offset\<close>.
\<close>

definition applyExposureAndOffset :: "('image, 'shader, 'lazy) ImageCanvas \<Rightarrow> real \<Rightarrow> real" where
  "applyExposureAndOffset c v = v * 2 powr mExposure c + mOffset c"

text \<open>
  Modelled from the spec: the standard linear-to-sRGB transfer curve that the SRGB mode
  applies to each channel, "piecewise: linear segment below a threshold, power curve
  above", over the reals with the constants of the standard. It stands in
  \<open>applyTonemap\<close> below, whose body is outside the sources; what is proved of the sRGB
  transfer function is proved of \<open>toSRGB\<close> above, the function of \<open>Common.h\<close>.
\<close>

definition sRGB_curve :: "real \<Rightarrow> real" where
  "sRGB_curve x = (if x \<le> 0.0031308 then 12.92 * x else 1.055 * x powr (1 / 2.4) - 0.055)"

text \<open>
  Modelled from the spec: the static \<open>ImageCanvas::applyTonemap\<close>, declared in the header
  and defined outside the sources. SRGB applies the standard transfer curve to each
  channel, Gamma raises each channel to the power \<open>1 / gamma\<close> (\<open>powr\<close> is that power on
  channels \<open>\<ge> 0\<close> for a gamma above 0). The colour ramps of FalseColor and
  PositiveNegative are not given by the spec and are the first two arguments; the
  sentinel is no tonemap and has no result.
\<close>

definition applyTonemap ::
  "(Vector3f \<Rightarrow> Vector3f) \<Rightarrow> (Vector3f \<Rightarrow> Vector3f) \<Rightarrow> Vector3f \<Rightarrow> real \<Rightarrow> ETonemap \<Rightarrow> Vector3f option" where
  "applyTonemap falseColor positiveNegative v gamma tonemap =
     (case tonemap of
        SRGB \<Rightarrow> Some (map_Vector3f sRGB_curve v)
      | Gamma \<Rightarrow> Some (map_Vector3f (\<lambda>x. x powr (1 / gamma)) v)
      | FalseColor \<Rightarrow> Some (falseColor v)
      | PositiveNegative \<Rightarrow> Some (positiveNegative v)
      | NumTonemaps \<Rightarrow> None)"

text \<open>
  Modelled from the spec: the tonemapping stage of the pixel pipeline behind
  \<open>getHdrImageData\<close> and \<open>getLdrImageData\<close>, both defined outside the sources. The spec
  has exposure and offset applied before tonemapping, with the canvas's gamma and mode.
\<close>

definition tonemappedValue ::
  "(Vector3f \<Rightarrow> Vector3f) \<Rightarrow> (Vector3f \<Rightarrow> Vector3f) \<Rightarrow> ('image, 'shader, 'lazy) ImageCanvas \<Rightarrow>
   Vector3f \<Rightarrow> Vector3f option" where
  "tonemappedValue falseColor positiveNegative c raw =
     applyTonemap_member (applyTonemap falseColor positiveNegative) c
       (map_Vector3f (applyExposureAndOffset c) raw)"


text \<open>The finite value of a float, if it has one.\<close>

fun finite_value :: "ieee \<Rightarrow> real option" where
  "finite_value (Num r) = Some r"
| "finite_value NegZero = Some 0"
| "finite_value _ = None"

text \<open>
  Modelled from the spec: the static \<open>ImageCanvas::applyMetric\<close>, declared in the header
  and defined outside the sources. The spec gives the five formulas, computed here in
  \<open>float\<close> arithmetic, and calls \<open>\<epsilon>\<close> a small constant: it is the first argument. Value
  and reference are finite floats. The result is the finite value computed, \<open>None\<close> when
  the float computed is an infinity or NaN; the sentinel is no metric and has no result.
\<close>

definition applyMetric :: "real \<Rightarrow> real \<Rightarrow> real \<Rightarrow> EMetric \<Rightarrow> real option" where
  "applyMetric eps v reference metric =
     (let d = fsub Binary32 (Num v) (Num reference) in
      case metric of
        Error \<Rightarrow> finite_value d
      | AbsoluteError \<Rightarrow> finite_value (fabs d)
      | SquaredError \<Rightarrow> finite_value (fmul Binary32 d d)
      | RelativeAbsoluteError \<Rightarrow>
          finite_value (fdiv Binary32 (fabs d) (fadd Binary32 (fabs (Num reference)) (Num eps)))
      | RelativeSquaredError \<Rightarrow>
          finite_value
            (fdiv Binary32 (fmul Binary32 d d)
              (fadd Binary32 (fmul Binary32 (Num reference) (Num reference)) (Num eps)))
      | NumMetrics \<Rightarrow> None)"


section \<open>The setters and the statistics cache\<close>

text \<open>
  C2. \<open>setExposure\<close>, \<open>setOffset\<close> and \<open>setGamma\<close> store their argument in their own field
  and leave the statistics cache \<open>mMeanValues\<close> as it was: writing the old value back into
  that one field gives the canvas before the call, so no other member differs.
\<close>

theorem setters_keep_statistics_cache:
  "mMeanValues (setExposure e c) = mMeanValues c \<and>
   mMeanValues (setOffset off c) = mMeanValues c \<and>
   mMeanValues (setGamma g c) = mMeanValues c \<and>
   mExposure (setExposure e c) = e \<and>
   mOffset (setOffset off c) = off \<and>
   mGamma (setGamma g c) = g \<and>
   (setExposure e c)\<lparr>mExposure := mExposure c\<rparr> = c \<and>
   (setOffset off c)\<lparr>mOffset := mOffset c\<rparr> = c \<and>
   (setGamma g c)\<lparr>mGamma := mGamma c\<rparr> = c"
  by (simp add: setExposure_def setOffset_def setGamma_def)

section \<open>The overloads of \<open>getValuesAtNanoPos\<close>\<close>

text \<open>
  C9. The vector-returning overload gives exactly what the overload with an out-parameter
  writes into a freshly constructed, empty vector (or throws what it throws), whatever
  that overload does.
\<close>

theorem getValuesAtNanoPos_overloads_agree:
  "getValuesAtNanoPos getValuesAtNanoPos_out c nanoPos channels =
     getValuesAtNanoPos_out c nanoPos [] channels"
  by (simp add: getValuesAtNanoPos_def split: sum.split prod.split)

section \<open>Gamma is stored unchecked\<close>

lemma mGamma_fold_setGamma:
  "mGamma (fold setGamma gs c) = (if gs = [] then mGamma c else last gs)"
  by (induction gs arbitrary: c) (simp_all add: setGamma_def)

text \<open>
  C8, as amended. Gamma starts at 2.2. After a sequence \<open>gs\<close> of \<open>setGamma\<close> calls it is
  the last argument passed, whatever that is, since \<open>setGamma\<close> stores its argument
  unchecked; so it stays above 0 when it was and every argument is.
\<close>

theorem gamma_is_last_argument:
  "mGamma (defaultCanvas :: ('image, 'shader, 'lazy) ImageCanvas) = 2.2 \<and>
   mGamma (fold setGamma gs (c :: ('image, 'shader, 'lazy) ImageCanvas)) =
     (if gs = [] then mGamma c else last gs) \<and>
   (0 < mGamma c \<and> (\<forall>g \<in> set gs. 0 < g) \<longrightarrow> 0 < mGamma (fold setGamma gs c))"
proof (intro conjI impI)
  show "mGamma (defaultCanvas :: ('image, 'shader, 'lazy) ImageCanvas) = 2.2"
    by (simp add: defaultCanvas_def)
next
  show "mGamma (fold setGamma gs c) = (if gs = [] then mGamma c else last gs)"
    by (rule mGamma_fold_setGamma)
next
  assume "0 < mGamma c \<and> (\<forall>g \<in> set gs. 0 < g)"
  then show "0 < mGamma (fold setGamma gs c)"
    by (simp add: mGamma_fold_setGamma)
qed

theorem gamma_is_last_argument_witness:
  "0 < mGamma (defaultCanvas :: (unit, unit, unit) ImageCanvas) \<and>
   (0::real) < 1 \<and> (0::real) < 2.4 \<and>
   mGamma (fold setGamma [1, 2.4] (defaultCanvas :: (unit, unit, unit) ImageCanvas)) = 2.4 \<and>
   0 < mGamma (fold setGamma [1, 2.4] (defaultCanvas :: (unit, unit, unit) ImageCanvas))"
  using gamma_is_last_argument
    [where gs = "[1, 2.4]" and c = "defaultCanvas :: (unit, unit, unit) ImageCanvas"]
  by simp

text \<open>
  The claim as stated fails: \<open>setGamma(-1)\<close> on a fresh canvas leaves gamma at \<open>-1\<close>.
\<close>

theorem setGamma_negative_counterexample:
  "mGamma (setGamma (- 1) (defaultCanvas :: (unit, unit, unit) ImageCanvas)) = - 1 \<and>
   \<not> 0 < mGamma (setGamma (- 1) (defaultCanvas :: (unit, unit, unit) ImageCanvas))"
  by (simp add: setGamma_def)

section \<open>\<open>clamp\<close>\<close>

lemma float_lt_NaN_right [simp]: "float_lt a NaN = False"
  by (cases a) simp_all

lemma float_ge_cases: "float_ge hi lo \<longleftrightarrow> \<not> (float_lt hi lo \<or> lo = NaN \<or> hi = NaN)"
  by (auto simp add: float_ge_def)

lemma clamp_float_throws: "(\<exists>e. clamp_float v lo hi = Inl e) \<longleftrightarrow> \<not> float_ge hi lo"
  by (simp add: clamp_float_def clamp_def TEV_ASSERT_def)

lemma clamp_float_returns:
  "float_le lo hi \<Longrightarrow> clamp_float v lo hi = Inr (std_max float_lt (std_min float_lt v hi) lo)"
  by (simp add: clamp_float_def clamp_def TEV_ASSERT_def float_le_def)

lemma clamp_float_NaN: "std_max float_lt (std_min float_lt NaN hi) lo = NaN"
  by (simp add: std_max_def std_min_def)

lemma clamp_float_in_range:
  assumes "float_le lo hi" "v \<noteq> NaN"
  shows "float_le lo (std_max float_lt (std_min float_lt v hi) lo) \<and>
         float_le (std_max float_lt (std_min float_lt v hi) lo) hi"
  using assms
  by (cases lo; cases hi; cases v)
    (auto simp add: float_le_def float_ge_def std_max_def std_min_def)

lemma clamp_ord_throws: "(\<exists>e. clamp_ord w l h = Inl e) \<longleftrightarrow> h < l"
  by (auto simp add: clamp_ord_def clamp_def TEV_ASSERT_def)

lemma clamp_ord_returns: "l \<le> h \<Longrightarrow> clamp_ord w l h = Inr (max (min w h) l)"
  by (auto simp add: clamp_ord_def clamp_def TEV_ASSERT_def std_max_def std_min_def
      max_def min_def)

text \<open>
  C10, as amended. \<open>clamp\<close> throws exactly when the asserted comparison \<open>max >= min\<close> is
  false. For floats that is when \<open>max < min\<close> or one of the two bounds is NaN; with
  \<open>min <= max\<close> it returns \<open>std::max(std::min(value, max), min)\<close>, which lies within the
  bounds when the value is not NaN and is NaN when the value is. For a totally ordered
  type (the integers) it throws exactly when \<open>max < min\<close>, and with \<open>min <= max\<close> it
  returns \<open>max (min value max) min\<close>, which lies within the bounds.
\<close>

theorem clamp_throws_iff_assertion_fails:
  "((\<exists>e. clamp_float v lo hi = Inl e) \<longleftrightarrow> float_lt hi lo \<or> lo = NaN \<or> hi = NaN) \<and>
   (float_le lo hi \<longrightarrow> clamp_float v lo hi = Inr (std_max float_lt (std_min float_lt v hi) lo)) \<and>
   (float_le lo hi \<and> v \<noteq> NaN \<longrightarrow>
      (\<exists>r. clamp_float v lo hi = Inr r \<and> float_le lo r \<and> float_le r hi)) \<and>
   (float_le lo hi \<longrightarrow> clamp_float NaN lo hi = Inr NaN) \<and>
   ((\<exists>e. clamp_ord w l h = Inl e) \<longleftrightarrow> h < l) \<and>
   (l \<le> h \<longrightarrow> clamp_ord w l h = Inr (max (min w h) l) \<and>
      l \<le> max (min w h) l \<and> max (min w h) l \<le> h)"
proof (intro conjI impI)
  show "(\<exists>e. clamp_float v lo hi = Inl e) \<longleftrightarrow> float_lt hi lo \<or> lo = NaN \<or> hi = NaN"
    by (simp only: clamp_float_throws float_ge_cases) simp
next
  assume "float_le lo hi"
  then show "clamp_float v lo hi = Inr (std_max float_lt (std_min float_lt v hi) lo)"
    by (rule clamp_float_returns)
next
  assume "float_le lo hi \<and> v \<noteq> NaN"
  then show "\<exists>r. clamp_float v lo hi = Inr r \<and> float_le lo r \<and> float_le r hi"
    using clamp_float_returns [of lo hi v] clamp_float_in_range [of lo hi v] by simp
next
  assume "float_le lo hi"
  then show "clamp_float NaN lo hi = Inr NaN"
    by (simp add: clamp_float_returns clamp_float_NaN)
next
  show "(\<exists>e. clamp_ord w l h = Inl e) \<longleftrightarrow> h < l"
    by (rule clamp_ord_throws)
next
  assume "l \<le> h"
  then show "clamp_ord w l h = Inr (max (min w h) l)"
    by (rule clamp_ord_returns)
next
  assume "l \<le> h"
  then show "l \<le> max (min w h) l" by simp
next
  assume "l \<le> h"
  then show "max (min w h) l \<le> h" by simp
qed

theorem clamp_throws_iff_assertion_fails_witness:
  "float_le (Finite 0) (Finite 1) \<and> Finite 2 \<noteq> NaN \<and>
   clamp_float (Finite 2) (Finite 0) (Finite 1) = Inr (Finite 1) \<and>
   clamp_float NaN (Finite 0) (Finite 1) = Inr NaN \<and>
   (\<exists>e. clamp_float (Finite 2) (Finite 1) (Finite 0) = Inl e) \<and>
   (0::int) \<le> 3 \<and> clamp_ord (5::int) 0 3 = Inr 3 \<and>
   (\<exists>e. clamp_ord (5::int) 3 0 = Inl e)"
  using clamp_throws_iff_assertion_fails [of "Finite 2" "Finite 0" "Finite 1" "5::int" 0 3]
    clamp_throws_iff_assertion_fails [of "Finite 2" "Finite 1" "Finite 0" "5::int" 3 0]
  by (simp add: float_le_def float_ge_def std_max_def std_min_def)

text \<open>
  The claim as stated fails on floats. \<open>clamp(0.5f, NaN, 1.0f)\<close> throws although
  \<open>max < min\<close> is false; and \<open>clamp(NaN, 0.0f, 1.0f)\<close>, where \<open>min <= max\<close>, returns NaN,
  which is not within the bounds.
\<close>

theorem clamp_NaN_counterexample:
  "clamp_float (Finite (1 / 2)) NaN (Finite 1) =
     Inl (RuntimeError ''Minimum (%f) may not be larger than maximum (%f).'' [NaN, Finite 1]) \<and>
   \<not> float_lt (Finite 1) NaN \<and>
   float_le (Finite 0) (Finite 1) \<and>
   clamp_float NaN (Finite 0) (Finite 1) = Inr NaN \<and>
   \<not> float_le (Finite 0) NaN"
  by (simp add: clamp_float_def clamp_def TEV_ASSERT_def float_le_def float_ge_def
      std_max_def std_min_def)

section \<open>IEEE arithmetic: rounding is monotone\<close>

lemma rne_floor_cases: "rne x = \<lfloor>x\<rfloor> \<or> rne x = \<lfloor>x\<rfloor> + 1"
  by (simp add: rne_def Let_def)

lemma rne_of_int [simp]: "rne (of_int n) = n"
  by (simp add: rne_def)

lemma rne_0 [simp]: "rne 0 = 0"
  using rne_of_int [of 0] by simp

lemma rne_mono:
  assumes "x \<le> y"
  shows "rne x \<le> rne y"
proof (cases "\<lfloor>x\<rfloor> = \<lfloor>y\<rfloor>")
  case True
  with assms show ?thesis
    by (auto simp add: rne_def Let_def)
next
  case False
  with assms have "\<lfloor>x\<rfloor> + 1 \<le> \<lfloor>y\<rfloor>"
    using floor_mono [of x y] by linarith
  moreover have "rne x \<le> \<lfloor>x\<rfloor> + 1" using rne_floor_cases [of x] by linarith
  moreover have "\<lfloor>y\<rfloor> \<le> rne y" using rne_floor_cases [of y] by linarith
  ultimately show ?thesis by linarith
qed

lemma floor_minus_non_int: "x \<noteq> of_int \<lfloor>x\<rfloor> \<Longrightarrow> \<lfloor>- x\<rfloor> = - \<lfloor>x\<rfloor> - 1"
  for x :: real
  by linarith

lemma rne_minus: "rne (- x) = - rne x"
proof (cases "x = of_int \<lfloor>x\<rfloor>")
  case True
  then have "rne (- x) = rne (of_int (- \<lfloor>x\<rfloor>))" by simp
  also have "\<dots> = - \<lfloor>x\<rfloor>" by (rule rne_of_int)
  also have "\<dots> = - rne (of_int \<lfloor>x\<rfloor>)" by (simp only: rne_of_int)
  finally show ?thesis using True by simp
next
  case False
  then show ?thesis
    by (auto simp add: rne_def Let_def floor_minus_non_int)
qed

lemma quantum_pos [simp]: "0 < quantum fmt x"
  by (simp add: quantum_def)

lemma quantum_nonneg [simp]: "0 \<le> quantum fmt x"
  by (simp add: quantum_def)

lemma quantum_minus [simp]: "quantum fmt (- x) = quantum fmt x"
  by (simp add: quantum_def binade_def)

lemma divide_quantum_mono: "a \<le> b \<Longrightarrow> a / quantum fmt x \<le> b / quantum fmt x"
  by (rule divide_right_mono) simp_all

lemma round_real_minus: "round_real fmt (- x) = - round_real fmt x"
  by (simp add: round_real_def rne_minus)

lemma round_real_0 [simp]: "round_real fmt 0 = 0"
  by (simp add: round_real_def)

lemma round_real_nonneg: "0 \<le> x \<Longrightarrow> 0 \<le> round_real fmt x"
proof -
  assume "0 \<le> x"
  then have "rne 0 \<le> rne (x / quantum fmt x)"
    by (intro rne_mono) simp
  then show ?thesis
    by (simp add: round_real_def)
qed

lemma floor_log2_bounds:
  assumes "0 < x"
  shows "2 powi \<lfloor>log 2 x\<rfloor> \<le> x \<and> x < 2 powi (\<lfloor>log 2 x\<rfloor> + 1)"
proof -
  have a: "(2::real) powr (of_int k) = 2 powi k" for k
    by (rule powr_real_of_int') simp_all
  have "(2::real) powr (of_int \<lfloor>log 2 x\<rfloor>) \<le> x \<and> x < 2 powr (of_int \<lfloor>log 2 x\<rfloor> + 1)"
    using floor_log_eq_powr_iff [of x 2 "\<lfloor>log 2 x\<rfloor>"] assms by simp
  moreover have "(2::real) powr (of_int \<lfloor>log 2 x\<rfloor> + 1) = 2 powi (\<lfloor>log 2 x\<rfloor> + 1)"
    using a [of "\<lfloor>log 2 x\<rfloor> + 1"] by simp
  ultimately show ?thesis by (simp add: a)
qed

lemma floor_log2_eqI:
  assumes "2 powi k \<le> x" "x < 2 powi (k + 1)"
  shows "\<lfloor>log 2 x\<rfloor> = k"
proof -
  have "(0::real) < 2 powi k" by simp
  with assms(1) have pos: "0 < x" by linarith
  have a: "(2::real) powr (of_int k) = 2 powi k"
    by (rule powr_real_of_int') simp_all
  have "(2::real) powr (of_int (k + 1)) = 2 powi (k + 1)"
    by (rule powr_real_of_int') simp_all
  then have b: "(2::real) powr (of_int k + 1) = 2 powi (k + 1)"
    by simp
  show ?thesis
    using floor_log_eq_powr_iff [of x 2 k] pos assms a b by simp
qed

text \<open>Rounding a given number: name the power of two at or below it.\<close>

lemma round_real_eval:
  assumes "2 powi k \<le> \<bar>x\<bar>" "\<bar>x\<bar> < 2 powi (k + 1)"
  shows "round_real fmt x =
    of_int (rne (x / 2 powi (max (1 - emax fmt) k - int (precision fmt) + 1))) *
      2 powi (max (1 - emax fmt) k - int (precision fmt) + 1)"
  using floor_log2_eqI [OF assms]
  by (simp add: round_real_def quantum_def binade_def)

lemma binade_mono:
  assumes "0 < x" "x \<le> y"
  shows "binade fmt x \<le> binade fmt y"
proof -
  have "log 2 x \<le> log 2 y" using assms by simp
  then have "\<lfloor>log 2 x\<rfloor> \<le> \<lfloor>log 2 y\<rfloor>" by (rule floor_mono)
  then show ?thesis using assms by (simp add: binade_def)
qed

lemma below_next_binade:
  assumes "0 < x"
  shows "x < 2 powi (binade fmt x + 1)"
proof -
  have "x < 2 powi (\<lfloor>log 2 x\<rfloor> + 1)" using floor_log2_bounds [OF assms] by simp
  also have "\<dots> \<le> 2 powi (binade fmt x + 1)"
    using assms by (intro power_int_increasing) (simp_all add: binade_def)
  finally show ?thesis .
qed

lemma above_binade:
  assumes "0 < x" "1 - emax fmt < binade fmt x"
  shows "2 powi binade fmt x \<le> x"
proof -
  from assms have "binade fmt x = \<lfloor>log 2 x\<rfloor>"
    by (simp add: binade_def max_def split: if_splits)
  then show ?thesis using floor_log2_bounds [OF assms(1)] by simp
qed

lemma rne_power_int_2: "0 \<le> k \<Longrightarrow> of_int (rne (2 powi k)) = (2::real) powi k"
proof -
  assume "0 \<le> k"
  then have "(2::real) powi k = of_int (2 ^ nat k)"
    by (simp add: power_int_nonneg_exp)
  then show ?thesis by (simp only: rne_of_int)
qed

lemma pow2_add: "(2::real) powi a * 2 powi b = 2 powi (a + b)"
  by (simp add: power_int_add)

lemma precision_pos: "1 \<le> int (precision fmt)"
  by (cases fmt) simp_all

lemma round_real_le_power:
  assumes "0 < x"
  shows "round_real fmt x \<le> 2 powi (binade fmt x + 1)"
proof -
  let ?p = "int (precision fmt)"
  let ?q = "quantum fmt x"
  have q: "?q = 2 powi (binade fmt x - ?p + 1)" by (rule quantum_def)
  have "x / ?q \<le> 2 powi (binade fmt x + 1) / ?q"
    using below_next_binade [OF assms, of fmt] by (intro divide_quantum_mono) simp
  also have "2 powi (binade fmt x + 1) / ?q = 2 powi ?p"
    by (simp add: q power_int_diff [symmetric])
  finally have "rne (x / ?q) \<le> rne (2 powi ?p)" by (rule rne_mono)
  then have "of_int (rne (x / ?q)) \<le> (of_int (rne (2 powi ?p)) :: real)" by simp
  also have "\<dots> = 2 powi ?p" by (rule rne_power_int_2) simp
  finally have "of_int (rne (x / ?q)) * ?q \<le> 2 powi ?p * ?q"
    by (simp add: mult_right_mono)
  also have "2 powi ?p * ?q = 2 powi (?p + (binade fmt x - ?p + 1))"
    by (simp only: q pow2_add)
  also have "?p + (binade fmt x - ?p + 1) = binade fmt x + 1"
    by simp
  finally show ?thesis by (simp add: round_real_def)
qed

lemma round_real_ge_power:
  assumes "0 < x" "1 - emax fmt < binade fmt x"
  shows "2 powi binade fmt x \<le> round_real fmt x"
proof -
  let ?p = "int (precision fmt)"
  let ?q = "quantum fmt x"
  have q: "?q = 2 powi (binade fmt x - ?p + 1)" by (rule quantum_def)
  have "2 powi binade fmt x / ?q \<le> x / ?q"
    using above_binade [OF assms] by (rule divide_quantum_mono)
  moreover have "2 powi binade fmt x / ?q = 2 powi (?p - 1)"
    by (simp add: q power_int_diff [symmetric])
  ultimately have "rne (2 powi (?p - 1)) \<le> rne (x / ?q)"
    using rne_mono by simp
  then have "(of_int (rne (2 powi (?p - 1))) :: real) \<le> of_int (rne (x / ?q))" by simp
  moreover have "(of_int (rne (2 powi (?p - 1))) :: real) = 2 powi (?p - 1)"
    using precision_pos [of fmt] by (intro rne_power_int_2) simp
  ultimately have "2 powi (?p - 1) * ?q \<le> of_int (rne (x / ?q)) * ?q"
    by (simp add: mult_right_mono)
  moreover have "2 powi (?p - 1) * ?q = 2 powi binade fmt x"
    by (simp add: q power_int_add [symmetric])
  ultimately show ?thesis by (simp add: round_real_def)
qed

lemma round_real_mono_pos:
  assumes "0 < x" "x \<le> y"
  shows "round_real fmt x \<le> round_real fmt y"
proof (cases "binade fmt x = binade fmt y")
  case True
  then have q: "quantum fmt x = quantum fmt y" by (simp add: quantum_def)
  have "x / quantum fmt y \<le> y / quantum fmt y"
    using assms(2) by (rule divide_quantum_mono)
  then have "rne (x / quantum fmt y) \<le> rne (y / quantum fmt y)" by (rule rne_mono)
  then show ?thesis
    by (simp add: round_real_def q mult_right_mono)
next
  case False
  with binade_mono [OF assms, of fmt] have lt: "binade fmt x + 1 \<le> binade fmt y" by simp
  have "1 - emax fmt \<le> binade fmt x" by (simp add: binade_def)
  with lt have low: "1 - emax fmt < binade fmt y" by simp
  have ypos: "0 < y" using assms by simp
  have "round_real fmt x \<le> 2 powi (binade fmt x + 1)"
    by (rule round_real_le_power [OF assms(1)])
  also have "\<dots> \<le> 2 powi binade fmt y"
    using lt by (intro power_int_increasing) simp_all
  also have "\<dots> \<le> round_real fmt y"
    by (rule round_real_ge_power [OF ypos low])
  finally show ?thesis .
qed

lemma round_real_mono:
  assumes "x \<le> y"
  shows "round_real fmt x \<le> round_real fmt y"
proof -
  consider "0 < x" | "x \<le> 0" "0 \<le> y" | "y < 0" by linarith
  then show ?thesis
  proof cases
    case 1
    then show ?thesis using assms by (rule round_real_mono_pos)
  next
    case 2
    have "round_real fmt x \<le> 0"
      using round_real_nonneg [of "- x" fmt] 2 by (simp add: round_real_minus)
    also have "0 \<le> round_real fmt y" using 2 by (intro round_real_nonneg)
    finally show ?thesis .
  next
    case 3
    then have "0 < - y" "- y \<le> - x" using assms by simp_all
    then have "round_real fmt (- y) \<le> round_real fmt (- x)" by (rule round_real_mono_pos)
    then show ?thesis by (simp add: round_real_minus)
  qed
qed

subsection \<open>Order on the values\<close>


lemma fle_Num [simp]: "fle (Num a) (Num b) \<longleftrightarrow> a \<le> b"
  by (auto simp add: fle_def float_le_def float_ge_def)


lemma cmp_signed_zero [simp]: "cmp (signed_zero neg) = Finite 0"
  by (simp add: signed_zero_def)



lemma pow2_not_le_0 [simp]: "\<not> (2::real) powi k \<le> 0"
proof -
  have "(0::real) < 2 powi k" by simp
  then show ?thesis by linarith
qed

lemma fround_not_Nan [simp]: "fround fmt n x \<noteq> Nan"
  by (simp add: fround_def Let_def signed_zero_def)




lemma fle_Infty_left: "fle (Infty False) b \<Longrightarrow> b = Infty False"
  by (cases b) (auto simp add: fle_def float_le_def float_ge_def split: if_splits)

lemma fle_Infty_right: "fle a (Infty True) \<Longrightarrow> a = Infty True"
  by (cases a) (auto simp add: fle_def float_le_def float_ge_def split: if_splits)












section \<open>The sRGB transfer function\<close>

subsection \<open>The literals\<close>

lemma literal_threshold: "literal 0.0031308 = Num (13446684 / 2 ^ 32)"
  by (simp add: literal_def fround_def round_real_eval [where k = "- 9"] rne_def signed_zero_def)

lemma literal_slope: "literal 12.92 = Num (6773801 / 2 ^ 19)"
  by (simp add: literal_def fround_def round_real_eval [where k = 3] rne_def signed_zero_def)

lemma literal_a: "literal 0.055 = Num (7381975 / 2 ^ 27)"
  by (simp add: literal_def fround_def round_real_eval [where k = "- 5"] rne_def signed_zero_def)

lemma literal_gamma: "literal 2.4 = Num (5033165 / 2 ^ 21)"
  by (simp add: literal_def fround_def round_real_eval [where k = 1] rne_def signed_zero_def)

lemma one_plus_a: "fadd Binary32 (Num 1) (literal 0.055) = Num (8849981 / 2 ^ 23)"
  unfolding literal_a
  by (simp add: fround_def round_real_eval [where k = 0] rne_def signed_zero_def)

lemma default_exponent: "fdiv Binary32 (Num 1) (literal 2.4) = Num (13981013 / 2 ^ 25)"
  unfolding literal_gamma
  by (simp add: fround_def round_real_eval [where k = "- 2"] rne_def signed_zero_def)


text \<open>
  C3. \<open>toSRGB\<close> is piecewise. For every input that compares \<open><=\<close> to the literal
  \<open>0.0031308f\<close> it returns the \<open>float\<close> product \<open>12.92f * linear\<close>, the linear segment.
  For every other input (those above the threshold, and NaN) it returns the power curve
  \<open>(1 + 0.055f) * pow(linear, 1 / gamma) - 0.055f\<close>, evaluated as the source writes it and
  converted to \<open>float\<close>. The default gamma is \<open>2.4f\<close>. The literals are the binary32
  values nearest to the decimals.
\<close>

theorem toSRGB_piecewise:
  "(fle lin (literal 0.0031308) \<longrightarrow>
      toSRGB pow ef lin gamma = fmul Binary32 (literal 12.92) lin) \<and>
   (\<not> fle lin (literal 0.0031308) \<longrightarrow>
      toSRGB pow ef lin gamma =
        fconv Binary32
          (fsub ef
            (fmul ef (fadd Binary32 (Num 1) (literal 0.055))
              (pow lin (fdiv Binary32 (Num 1) gamma)))
            (literal 0.055))) \<and>
   toSRGB_default pow ef lin = toSRGB pow ef lin (literal 2.4) \<and>
   literal 0.0031308 = Num (13446684 / 2 ^ 32) \<and>
   literal 12.92 = Num (6773801 / 2 ^ 19) \<and>
   literal 0.055 = Num (7381975 / 2 ^ 27) \<and>
   literal 2.4 = Num (5033165 / 2 ^ 21)"
  by (simp only: literal_threshold literal_slope literal_a literal_gamma
      toSRGB_def toSRGB_default_def Let_def) simp

lemma toSRGB_at_threshold:
  "toSRGB pow ef (Num (13446684 / 2 ^ 32)) gamma = Num (10858197 / 2 ^ 28)"
  unfolding toSRGB_def literal_threshold literal_slope literal_a Let_def
  by (simp add: fle_def float_le_def float_ge_def fround_def
      round_real_eval [where k = "- 5"] rne_def)

lemma toSRGB_default_at_threshold:
  "toSRGB_default pow ef (Num (13446684 / 2 ^ 32)) = Num (10858197 / 2 ^ 28)"
  by (simp only: toSRGB_default_def toSRGB_at_threshold)

lemma toSRGB_at_one:
  "toSRGB_default (pow_cr ef) ef (Num 1) = Num (16777215 / 2 ^ 24)"
  unfolding toSRGB_default_def toSRGB_def Let_def one_plus_a default_exponent
  unfolding literal_threshold literal_slope literal_a
  by (cases ef)
    (simp_all add: fle_def float_le_def float_ge_def fround_def pow_cr_def fsub_def
      round_real_eval [where k = 0] round_real_eval [where k = "- 1"] rne_def)

lemma toSRGB_gamma_zero:
  "toSRGB (pow_cr ef) ef (Num (1 / 2)) (Num 0) = Num (- (7381975 / 2 ^ 27))"
  unfolding toSRGB_def Let_def one_plus_a
  unfolding literal_threshold literal_slope literal_a
  by (cases ef)
    (simp_all add: fle_def float_le_def float_ge_def fround_def pow_cr_def fsub_def signed_zero_def
      round_real_eval [where k = "- 5"] rne_def)

lemma toSRGB_gamma_neg_zero:
  "toSRGB (pow_cr ef) ef (Num (1 / 2)) NegZero = Infty False"
  unfolding toSRGB_def Let_def one_plus_a
  unfolding literal_threshold literal_slope literal_a
  by (simp add: fle_def float_le_def float_ge_def pow_cr_def fsub_def)

text \<open>
  At the threshold itself the linear branch gives \<open>10858197 / 2^28\<close>; at 1 the power
  branch gives \<open>1 - 2^-24\<close> in either format; at 0.5 a gamma of \<open>+0\<close> makes the exponent
  \<open>+Inf\<close> and the result \<open>-0.055f\<close>, a gamma of \<open>-0\<close> makes the result \<open>+Inf\<close>.
\<close>

theorem toSRGB_piecewise_witness:
  "fle (Num (13446684 / 2 ^ 32)) (literal 0.0031308) \<and>
   toSRGB_default (pow_cr Binary32) Binary32 (Num (13446684 / 2 ^ 32)) = Num (10858197 / 2 ^ 28) \<and>
   \<not> fle (Num 1) (literal 0.0031308) \<and>
   toSRGB_default (pow_cr Binary32) Binary32 (Num 1) = Num (16777215 / 2 ^ 24) \<and>
   toSRGB_default (pow_cr Binary64) Binary64 (Num 1) = Num (16777215 / 2 ^ 24) \<and>
   toSRGB (pow_cr Binary32) Binary32 (Num (1 / 2)) (Num 0) = Num (- (7381975 / 2 ^ 27)) \<and>
   toSRGB (pow_cr Binary32) Binary32 (Num (1 / 2)) NegZero = Infty False"
proof -
  have le: "fle (Num (13446684 / 2 ^ 32)) (literal 0.0031308)"
    unfolding literal_threshold by (simp add: fle_def float_le_def float_ge_def)
  have gt: "\<not> fle (Num 1) (literal 0.0031308)"
    unfolding literal_threshold by (simp add: fle_def float_le_def float_ge_def)
  show ?thesis
    using le gt
      toSRGB_piecewise [of "Num (13446684 / 2 ^ 32)" "pow_cr Binary32" Binary32 "literal 2.4"]
      toSRGB_piecewise [of "Num 1" "pow_cr Binary32" Binary32 "literal 2.4"]
      toSRGB_default_at_threshold [of "pow_cr Binary32" Binary32]
      toSRGB_at_one [of Binary32] toSRGB_at_one [of Binary64]
      toSRGB_gamma_zero [of Binary32] toSRGB_gamma_neg_zero [of Binary32]
    by simp
qed

subsection \<open>Monotonicity, and the seam between the two pieces\<close>





lemma ln_2_le_1: "ln (2::real) \<le> 1"
proof -
  have "(2::real) \<le> exp 1" using exp_ge_add_one_self [of 1] by simp
  then have "ln 2 \<le> ln (exp (1::real))" by (intro ln_mono) simp_all
  then show ?thesis by simp
qed












lemma round_real_one [simp]: "round_real fmt 1 = 1"
  by (cases fmt) (simp_all add: round_real_eval [where k = 0] rne_def)







lemma fle_Num_refl: "fle (Num a) (Num a)"
  by simp










section \<open>Exposure and offset\<close>

text \<open>
  C7. \<open>applyExposureAndOffset\<close> maps a value to \<open>value * 2^mExposure + mOffset\<close> with the
  canvas's current exposure and offset (those last set), and the tonemap is applied to
  the adjusted channels, with the canvas's gamma and mode, not to the raw ones.
\<close>

theorem exposure_offset_before_tonemap:
  "applyExposureAndOffset c x = x * 2 powr mExposure c + mOffset c \<and>
   applyExposureAndOffset (setOffset off (setExposure e c)) x = x * 2 powr e + off \<and>
   tonemappedValue fc pn c (r, g, b) =
     applyTonemap fc pn
       (applyExposureAndOffset c r, applyExposureAndOffset c g, applyExposureAndOffset c b)
       (mGamma c) (mTonemap c)"
  by (simp add: applyExposureAndOffset_def setOffset_def setExposure_def tonemappedValue_def
      applyTonemap_member_def map_Vector3f_def)

section \<open>Metrics\<close>

text \<open>
  C5. A finite value compared against itself gives exactly zero under the Error and the
  SquaredError metric.
\<close>

theorem applyMetric_self_is_zero:
  "applyMetric eps x x Error = Some 0 \<and> applyMetric eps x x SquaredError = Some 0"
  by (simp add: applyMetric_def fsub_def signed_zero_def fround_def round_real_def rne_def)

subsection \<open>The relative absolute error\<close>

lemma applyMetric_RAE:
  "applyMetric eps v r RelativeAbsoluteError =
    finite_value
      (fdiv Binary32 (fabs (fsub Binary32 (Num v) (Num r))) (fadd Binary32 (fabs (Num r)) (Num eps)))"
  by (simp only: applyMetric_def Let_def EMetric.case)












text \<open>The overflow does not hang on the value chosen for \<open>\<epsilon>\<close>.\<close>

lemma metric_overflows:
  assumes "0 < eps" "eps \<le> 1 / 2"
  shows "applyMetric eps ((2 ^ 24 - 1) * 2 ^ 104) 0 RelativeAbsoluteError = None"
proof -
  let ?m = "(2 ^ 24 - 1) * 2 ^ 104 :: real"
  let ?s = "round_real Binary32 eps"
  have n: "fabs (fsub Binary32 (Num ?m) (Num 0)) = Num ?m"
    by (simp add: fsub_def fround_def round_real_eval [where k = 127] rne_def)
  have "?s \<le> round_real Binary32 (1 / 2)" using assms(2) by (rule round_real_mono)
  also have "round_real Binary32 (1 / 2) = 1 / 2"
    by (simp add: round_real_eval [where k = "- 1"] rne_def)
  finally have s: "?s \<le> 1 / 2" .
  have s0: "0 \<le> ?s" using assms(1) by (intro round_real_nonneg) simp
  have d: "fadd Binary32 (fabs (Num 0)) (Num eps) = (if ?s = 0 then Num 0 else Num ?s)"
    using assms s s0 by (simp add: fround_def signed_zero_def Let_def)
  show ?thesis
    unfolding applyMetric_RAE n d
  proof (cases "?s = 0")
    case True
    then show "finite_value (fdiv Binary32 (Num ?m) (if ?s = 0 then Num 0 else Num ?s)) = None"
      by simp
  next
    case False
    with s0 have sp: "0 < ?s" by simp
    have "2 * ?m \<le> ?m / ?s"
      using sp s by (simp add: field_simps)
    then have "round_real Binary32 (2 * ?m) \<le> round_real Binary32 (?m / ?s)"
      by (rule round_real_mono)
    moreover have "round_real Binary32 (2 * ?m) = 2 * ?m"
      by (simp add: round_real_eval [where k = 128] rne_def)
    ultimately have "2 powi (emax Binary32 + 1) \<le> \<bar>round_real Binary32 (?m / ?s)\<bar>"
      by simp
    then have "fround Binary32 False (?m / ?s) = Infty False"
      by (simp add: fround_def)
    then show "finite_value (fdiv Binary32 (Num ?m) (if ?s = 0 then Num 0 else Num ?s)) = None"
      using False sp by simp
  qed
qed




end
